theory Spec2Isabelle
  imports Complex_Main "HOL-Library.Sublist"
begin

section \<open>JavaScript values and strings\<close>

text \<open>
  Numbers of the request (durations, sizes, percentages) are modelled as rationals and
  printed in positional decimal notation, from the numerator and denominator in lowest
  terms. For integers and for short decimal fractions
  (such as 0.5 or 2.5) below 1e21 this is the text JavaScript's number-to-string
  conversion produces; binary rounding of floating point is not modelled, and a
  fraction is cut after 17 digits.
\<close>

definition digit_char :: "nat \<Rightarrow> char" where
  "digit_char n = ''0123456789'' ! n"

function int_str :: "int \<Rightarrow> string" where
  "int_str n =
     (if n < 10 then [digit_char (nat n)]
      else int_str (n div 10) @ [digit_char (nat (n mod 10))])"
  by pat_completeness auto
termination
  by (relation "measure nat") auto

declare int_str.simps [simp del]

definition nat_str :: "nat \<Rightarrow> string" where
  "nat_str n = int_str (int n)"

fun frac_str :: "nat \<Rightarrow> int \<Rightarrow> int \<Rightarrow> string" where
  "frac_str 0 m b = []"
| "frac_str (Suc k) m b =
     (if m = 0 then []
      else digit_char (nat (m * 10 div b)) # frac_str k (m * 10 mod b) b)"

definition num_str :: "rat \<Rightarrow> string" where
  "num_str r =
     (let (a, b) = quotient_of r;
          m = \<bar>a\<bar>
      in (if a < 0 then ''-'' else []) @ int_str (m div b) @
         (if m mod b = 0 then [] else ''.'' @ frac_str 17 (m mod b) b))"

text \<open>\<open>Math.PI\<close>, to the digits JavaScript prints for it.\<close>

definition math_pi :: rat where
  "math_pi = 3141592653589793 / 10 ^ 15"

text \<open>
  An absent property (\<open>undefined\<close>) is \<open>None\<close>. \<open>x || d\<close> takes the default for
  every falsy value: an absent one, the number 0, the empty string.
\<close>

definition num_or :: "rat option \<Rightarrow> rat \<Rightarrow> rat" where
  "num_or x d = (case x of None \<Rightarrow> d | Some v \<Rightarrow> if v = 0 then d else v)"

definition str_or :: "string option \<Rightarrow> string \<Rightarrow> string" where
  "str_or x d = (case x of None \<Rightarrow> d | Some v \<Rightarrow> if v = [] then d else v)"

text \<open>\<open>x !== undefined ? x : d\<close>\<close>

definition defined_or :: "'a option \<Rightarrow> 'a \<Rightarrow> 'a" where
  "defined_or x d = (case x of None \<Rightarrow> d | Some v \<Rightarrow> v)"

text \<open>\<open>x !== undefined && x > 0\<close>\<close>

definition is_positive :: "rat option \<Rightarrow> bool" where
  "is_positive x = (case x of None \<Rightarrow> False | Some v \<Rightarrow> v > 0)"

text \<open>\<open>Array.prototype.join\<close> and \<open>String.prototype.split\<close> with a one-character separator.\<close>

fun join_with :: "string \<Rightarrow> string list \<Rightarrow> string" where
  "join_with sep [] = []"
| "join_with sep [x] = x"
| "join_with sep (x # y # ys) = x @ sep @ join_with sep (y # ys)"

fun split_on :: "char \<Rightarrow> string \<Rightarrow> string list" where
  "split_on c [] = [[]]"
| "split_on c (x # xs) =
     (if x = c then [] # split_on c xs
      else (case split_on c xs of [] \<Rightarrow> [[x]] | p # ps \<Rightarrow> (x # p) # ps))"

text \<open>
  \<open>String.prototype.replace\<close> with a string pattern replaces the first occurrence only
  (the replacement texts used here contain no \<open>$\<close> pattern).
\<close>

fun replace_first :: "string \<Rightarrow> string \<Rightarrow> string \<Rightarrow> string" where
  "replace_first pat rep [] = (if pat = [] then rep else [])"
| "replace_first pat rep (c # cs) =
     (if prefix pat (c # cs) then rep @ drop (length pat) (c # cs)
      else c # replace_first pat rep cs)"

definition ends_with :: "string \<Rightarrow> string \<Rightarrow> bool" where
  "ends_with s suf = suffix suf s"

text \<open>White space of \<open>trim\<close> and \<open>parseInt\<close>, within ASCII.\<close>

definition is_ws :: "char \<Rightarrow> bool" where
  "is_ws c = (c \<in> set [CHR '' '', CHR 0x09, CHR 0x0A, CHR 0x0B, CHR 0x0C, CHR 0x0D])"

definition js_trim :: "string \<Rightarrow> string" where
  "js_trim s = rev (dropWhile is_ws (rev (dropWhile is_ws s)))"

text \<open>
  \<open>parseInt\<close> without a radix: white space, an optional sign, then the longest run of
  decimal digits, or of hexadecimal digits after \<open>0x\<close>/\<open>0X\<close>. \<open>None\<close> is \<open>NaN\<close>.
\<close>

definition digit_val :: "char \<Rightarrow> nat option" where
  "digit_val c =
     (let n = (of_char c :: nat) in
      if 48 \<le> n \<and> n \<le> 57 then Some (n - 48)
      else if 97 \<le> n \<and> n \<le> 102 then Some (n - 87)
      else if 65 \<le> n \<and> n \<le> 70 then Some (n - 55)
      else None)"

fun read_digits :: "nat \<Rightarrow> nat option \<Rightarrow> string \<Rightarrow> nat option" where
  "read_digits radix acc [] = acc"
| "read_digits radix acc (c # cs) =
     (case digit_val c of
        None \<Rightarrow> acc
      | Some d \<Rightarrow>
          if d < radix then read_digits radix (Some (defined_or acc 0 * radix + d)) cs
          else acc)"

definition parseInt :: "string \<Rightarrow> int option" where
  "parseInt s =
     (let t = dropWhile is_ws s;
          neg = (t \<noteq> [] \<and> hd t = CHR ''-'');
          u = (if t \<noteq> [] \<and> (hd t = CHR ''-'' \<or> hd t = CHR ''+'') then tl t else t);
          hex = (prefix ''0x'' u \<or> prefix ''0X'' u);
          r = (if hex then read_digits 16 None (drop 2 u) else read_digits 10 None u)
      in map_option (\<lambda>n. if neg then - int n else int n) r)"

text \<open>\<open>parseInt(p) || d\<close>\<close>

definition parseInt_or :: "string \<Rightarrow> rat \<Rightarrow> rat" where
  "parseInt_or p d = (case parseInt p of None \<Rightarrow> d | Some n \<Rightarrow> if n = 0 then d else of_int n)"

section \<open>Resources and output options\<close>

record resource =
  type :: string
  path :: string
  duration :: "rat option"
  startTime :: "rat option"
  transition :: "string option"
  transitionDuration :: "rat option"
  position :: "string option"
  scaleMode :: "string option"
  rotation :: "rat option"
  opacity :: "rat option"
  fade :: "string option"
  fadeDuration :: "rat option"
  volume :: "rat option"

record options =
  width :: "rat option"
  height :: "rat option"
  resolution :: "string option"
  fps :: "rat option"
  videoCodec :: "string option"
  videoPreset :: "string option"
  videoCrf :: "rat option"
  videoBitrate :: "string option"
  audioCodec :: "string option"
  audioBitrate :: "string option"
  audioSampleRate :: "rat option"
  audioChannels :: "rat option"
  backgroundColor :: "string option"

text \<open>The local constants \<open>composeVideo\<close> resolves from its options before it reads a resource.\<close>

record settings =
  c_width :: rat
  c_height :: rat
  c_fps :: rat
  c_videoCodec :: string
  c_videoPreset :: string
  c_videoCrf :: rat
  c_videoBitrate :: string
  c_audioCodec :: string
  c_audioBitrate :: string
  c_audioSampleRate :: rat
  c_audioChannels :: rat
  c_bgColorHex :: string

definition resolve_size :: "options \<Rightarrow> rat \<times> rat" where
  "resolve_size opts =
     (let w = num_or (width opts) 1280;
          h = num_or (height opts) 720;
          r = str_or (resolution opts) []
      in if r = [] then (w, h)
         else (let parts = split_on (CHR ''x'') r
               in if length parts = 2
                  then (parseInt_or (parts ! 0) w, parseInt_or (parts ! 1) h)
                  else (w, h)))"

definition resolve_options :: "options \<Rightarrow> settings" where
  "resolve_options opts =
     \<lparr> c_width = fst (resolve_size opts),
       c_height = snd (resolve_size opts),
       c_fps = num_or (fps opts) 25,
       c_videoCodec = str_or (videoCodec opts) ''libx264'',
       c_videoPreset = str_or (videoPreset opts) ''medium'',
       c_videoCrf = defined_or (videoCrf opts) 23,
       c_videoBitrate = str_or (videoBitrate opts) ''2000k'',
       c_audioCodec = str_or (audioCodec opts) ''aac'',
       c_audioBitrate = str_or (audioBitrate opts) ''192k'',
       c_audioSampleRate = num_or (audioSampleRate opts) 44100,
       c_audioChannels = num_or (audioChannels opts) 2,
       c_bgColorHex = replace_first ''#'' ''0x'' (str_or (backgroundColor opts) ''#000000'') \<rparr>"

section \<open>The path module and the file system\<close>

text \<open>
  Node's \<open>path\<close> functions in their POSIX flavour. \<open>normalize_segments\<close> is the loop of
  \<open>normalizeString\<close> over the segments between slashes: empty and \<open>.\<close> segments are
  dropped, \<open>..\<close> removes the segment before it, and is kept only where the path may
  climb above its start.
\<close>

fun normalize_segments :: "bool \<Rightarrow> string list \<Rightarrow> string list \<Rightarrow> string list" where
  "normalize_segments up res [] = rev res"
| "normalize_segments up res (s # ss) =
     (if s = [] \<or> s = ''.'' then normalize_segments up res ss
      else if s = ''..'' then
        (if res \<noteq> [] \<and> hd res \<noteq> ''..'' then normalize_segments up (tl res) ss
         else if up then normalize_segments up (''..'' # res) ss
         else normalize_segments up res ss)
      else normalize_segments up (s # res) ss)"

definition normalizeString :: "string \<Rightarrow> bool \<Rightarrow> string" where
  "normalizeString p up = join_with ''/'' (normalize_segments up [] (split_on (CHR ''/'') p))"

definition is_absolute :: "string \<Rightarrow> bool" where
  "is_absolute p = (p \<noteq> [] \<and> hd p = CHR ''/'')"

definition path_normalize :: "string \<Rightarrow> string" where
  "path_normalize p =
     (if p = [] then ''.''
      else (let trailing = (last p = CHR ''/'');
                q = normalizeString p (\<not> is_absolute p)
            in if q = [] then (if is_absolute p then ''/'' else if trailing then ''./'' else ''.'')
               else (if is_absolute p then ''/'' else []) @ q @ (if trailing then ''/'' else [])))"

definition path_join :: "string \<Rightarrow> string \<Rightarrow> string" where
  "path_join a b =
     (let parts = filter (\<lambda>s. s \<noteq> []) [a, b]
      in if parts = [] then ''.'' else path_normalize (join_with ''/'' parts))"

definition path_resolve :: "string \<Rightarrow> string \<Rightarrow> string" where
  "path_resolve cwd p =
     (let resolvedPath =
            (if is_absolute p then p @ ''/''
             else cwd @ ''/'' @ (if p = [] then [] else p @ ''/''));
          q = normalizeString resolvedPath (\<not> is_absolute resolvedPath)
      in if is_absolute resolvedPath then ''/'' @ q else if q = [] then ''.'' else q)"

definition path_dirname :: "string \<Rightarrow> string" where
  "path_dirname p =
     (if p = [] then ''.''
      else (let r1 = dropWhile (\<lambda>c. c = CHR ''/'') (rev (tl p));
                r2 = dropWhile (\<lambda>c. c \<noteq> CHR ''/'') r1
            in if r2 = [] then (if is_absolute p then ''/'' else ''.'')
               else if is_absolute p \<and> length r2 = 1 then ''//''
               else take (length r2) p))"

text \<open>
  What the program asks of its platform, and the state it works on: the regular files
  and the directories on disk, each named by its resolved path, and the encoder
  processes spawned so far. The encoder is an external process: its exit and what it
  does to the files are not the program's. \<open>download\<close> is \<open>downloadFromUrl\<close>: for a URL
  and the position of the resource in the request, the path of the file it saved in the
  uploads directory, or \<open>None\<close> when it rejects.
\<close>

datatype exit = Exited nat | LaunchFailed

record sys =
  cwd :: string
  app_dir :: string
  ffmpegPath :: string
  mkdir_ok :: "string \<Rightarrow> bool"
  write_ok :: "string \<Rightarrow> bool"
  unlink_ok :: "string \<Rightarrow> bool"
  encoder :: "string list \<Rightarrow> string set \<Rightarrow> exit \<times> string set"
  url_ok :: "string \<Rightarrow> bool"
  download :: "string \<Rightarrow> nat \<Rightarrow> string option"
  now :: rat

record world =
  files :: "string set"
  dirs :: "string set"
  spawned :: "string list list"

datatype error =
    MkdirFailed string
  | OutputDirNotWritable string
  | EmptyResourceList
  | InputFileMissing string
  | NoVisualContent
  | ImageFileMissing string
  | ComposeFailed exit

section \<open>Per-resource filters\<close>

definition buildScaleAndPositionFilter ::
  "string \<Rightarrow> string \<Rightarrow> resource \<Rightarrow> rat \<Rightarrow> rat \<Rightarrow> string" where
  "buildScaleAndPositionFilter bgColorHex inputLabel r targetWidth targetHeight =
     (let mode = str_or (scaleMode r) ''fit'';
          pos = str_or (position r) ''center'';
          rot = num_or (rotation r) 0;
          opa = defined_or (opacity r) 100;
          size = num_str targetWidth @ '':'' @ num_str targetHeight;
          scale =
            (if mode = ''fit'' then ''scale='' @ size @ '':force_original_aspect_ratio=decrease''
             else if mode = ''fill'' then ''scale='' @ size @ '':force_original_aspect_ratio=increase''
             else if mode = ''crop'' then
               ''scale='' @ size @ '':force_original_aspect_ratio=increase,crop='' @ size
             else ''scale='' @ size @ '':force_original_aspect_ratio=decrease'');
          padX = (if pos = ''top-left'' then ''0'' else if pos = ''top-right'' then ''ow-iw''
                  else if pos = ''bottom-left'' then ''0''
                  else if pos = ''bottom-right'' then ''ow-iw'' else ''(ow-iw)/2'');
          padY = (if pos = ''top-left'' then ''0'' else if pos = ''top-right'' then ''0''
                  else if pos = ''bottom-left'' then ''oh-ih''
                  else if pos = ''bottom-right'' then ''oh-ih'' else ''(oh-ih)/2'')
      in inputLabel @ scale @
         '',pad='' @ size @ '':'' @ padX @ '':'' @ padY @ '':color='' @ bgColorHex @
         (if rot \<noteq> 0
          then '',rotate='' @ num_str (rot * math_pi / 180) @ '':fillcolor='' @ bgColorHex @
               '':ow='' @ num_str targetWidth @ '':oh='' @ num_str targetHeight
          else []) @
         (if opa < 100
          then '',format=yuva420p,colorchannelmixer=aa='' @ num_str (opa / 100)
          else []))"

definition repad :: "settings \<Rightarrow> string" where
  "repad c = '',pad='' @ num_str (c_width c) @ '':'' @ num_str (c_height c) @
             '':(ow-iw)/2:(oh-ih)/2:color='' @ c_bgColorHex c"

definition buildTransitionFilter ::
  "settings \<Rightarrow> string \<Rightarrow> rat \<Rightarrow> rat \<Rightarrow> rat \<Rightarrow> rat \<Rightarrow> string" where
  "buildTransitionFilter c tr tdur totalDuration currentWidth currentHeight =
     (let td = num_str tdur;
          cw = num_str currentWidth;
          ch = num_str currentHeight;
          scaleExpr = (\<lambda>scaleStart scaleEnd.
             num_str scaleStart @ ''+('' @ num_str scaleEnd @ ''-'' @ num_str scaleStart @
             '')*min(1,t/'' @ td @ '')'')
      in if tr = ''none'' then []
         else
           (if tr = ''fade'' \<or> tr = ''fadein'' then '',fade=t=in:st=0:d='' @ td else []) @
           (if tr = ''fade'' \<or> tr = ''fadeout''
            then '',fade=t=out:st='' @ num_str (max 0 (totalDuration - tdur)) @
                 '':d='' @ td
            else []) @
           (if tr = ''slideLeft''
            then '',crop='' @ cw @ '':'' @ ch @ '':max(0,'' @
                 (''-'' @ cw @ ''*(1-t/'' @ td @ '')'') @ ''):0'' @ repad c
            else if tr = ''slideRight''
            then '',crop='' @ cw @ '':'' @ ch @ '':min(iw-'' @ cw @ '','' @
                 (cw @ ''*(1-t/'' @ td @ '')'') @ ''):0'' @ repad c
            else if tr = ''slideUp''
            then '',crop='' @ cw @ '':'' @ ch @ '':0:min(ih-'' @ ch @ '','' @
                 (ch @ ''*(1-t/'' @ td @ '')'') @ '')'' @ repad c
            else if tr = ''slideDown''
            then '',crop='' @ cw @ '':'' @ ch @ '':0:max(0,'' @
                 (''-'' @ ch @ ''*(1-t/'' @ td @ '')'') @ '')'' @ repad c
            else []) @
           (if tr = ''zoomIn''
            then '',scale=iw*'' @ scaleExpr (1/2) 1 @ '':ih*'' @ scaleExpr (1/2) 1 @ repad c
            else if tr = ''zoomOut''
            then '',scale=iw*'' @ scaleExpr (3/2) 1 @ '':ih*'' @ scaleExpr (3/2) 1 @ repad c
            else []))"

text \<open>The transition is applied under \<open>transition !== 'none' && transitionDuration > 0\<close>.\<close>

definition transition_part :: "settings \<Rightarrow> resource \<Rightarrow> rat \<Rightarrow> string" where
  "transition_part c r totalDuration =
     (let tr = str_or (transition r) ''none'';
          td = num_or (transitionDuration r) (1/2)
      in if tr \<noteq> ''none'' \<and> td > 0
         then buildTransitionFilter c tr td totalDuration (c_width c) (c_height c)
         else [])"

section \<open>composeVideo\<close>

text \<open>
  The arrays and the counter that \<open>composeVideo\<close> fills while it walks the resources.
  An entry of \<open>videoInputs\<close> is \<open>{index, duration}\<close>, one of \<open>audioInputs\<close> is
  \<open>{index, filterIndex}\<close> with \<open>filterIndex\<close> \<open>null\<close> for an unfiltered input.
\<close>

record build_state =
  args :: "string list"
  filterComplex :: "string list"
  inputIndex :: nat
  videoInputs :: "(nat \<times> rat option) list"
  audioInputs :: "(nat \<times> nat option) list"

definition existsSync :: "sys \<Rightarrow> world \<Rightarrow> string \<Rightarrow> bool" where
  "existsSync sy w p = (path_resolve (cwd sy) p \<in> files w \<union> dirs w)"

text \<open>\<open>fs.unlinkSync\<close> removes a regular file; \<open>None\<close> is the exception it throws otherwise.\<close>

definition unlinkSync :: "sys \<Rightarrow> string \<Rightarrow> world \<Rightarrow> world option" where
  "unlinkSync sy p w =
     (if path_resolve (cwd sy) p \<in> files w \<and> unlink_ok sy p
      then Some (w\<lparr> files := files w - {path_resolve (cwd sy) p} \<rparr>)
      else None)"

definition v_label :: "nat \<Rightarrow> string" where
  "v_label i = ''[v'' @ nat_str i @ '']''"

definition a_label :: "nat \<Rightarrow> string" where
  "a_label i = ''[a'' @ nat_str i @ '']''"

definition image_filter :: "settings \<Rightarrow> resource \<Rightarrow> nat \<Rightarrow> string" where
  "image_filter c img i =
     (let dur = num_or (duration img) 3;
          scaleFilter = buildScaleAndPositionFilter (c_bgColorHex c) [] img (c_width c) (c_height c)
      in ''['' @ nat_str i @ '':v]loop=-1:size=1:start=0'' @
         (if js_trim scaleFilter \<noteq> [] then '','' @ js_trim scaleFilter else []) @
         '',setsar=1,fps='' @ num_str (c_fps c) @ '':round=up,trim=duration='' @ num_str dur @
         transition_part c img dur @
         v_label i)"

definition image_step :: "sys \<Rightarrow> world \<Rightarrow> settings \<Rightarrow> resource \<Rightarrow> build_state \<Rightarrow> error + build_state" where
  "image_step sy w c img s =
     (let normalizedPath = path_resolve (cwd sy) (path img)
      in if \<not> existsSync sy w normalizedPath then Inl (ImageFileMissing normalizedPath)
         else Inr (s\<lparr> args := args s @ [''-i'', normalizedPath],
                       filterComplex := filterComplex s @ [image_filter c img (inputIndex s)],
                       videoInputs := videoInputs s @ [(inputIndex s, Some (num_or (duration img) 3))],
                       inputIndex := inputIndex s + 1 \<rparr>))"

fun process_images :: "sys \<Rightarrow> world \<Rightarrow> settings \<Rightarrow> resource list \<Rightarrow> build_state \<Rightarrow> error + build_state" where
  "process_images sy w c [] s = Inr s"
| "process_images sy w c (img # imgs) s =
     (case image_step sy w c img s of
        Inl e \<Rightarrow> Inl e
      | Inr s' \<Rightarrow> process_images sy w c imgs s')"

text \<open>The input options of a video or audio resource: \<open>-ss\<close> and \<open>-t\<close> are pushed before \<open>-i\<close>.\<close>

definition seek_args :: "resource \<Rightarrow> string list" where
  "seek_args r =
     (if is_positive (startTime r) then [''-ss'', num_str (the (startTime r))] else []) @
     (if is_positive (duration r) then [''-t'', num_str (the (duration r))] else [])"

definition input_args :: "sys \<Rightarrow> resource \<Rightarrow> string list" where
  "input_args sy r = seek_args r @ [''-i'', path_resolve (cwd sy) (path r)]"

definition video_filter :: "settings \<Rightarrow> resource \<Rightarrow> nat \<Rightarrow> string" where
  "video_filter c vid i =
     buildScaleAndPositionFilter (c_bgColorHex c) (''['' @ nat_str i @ '':v]'') vid (c_width c) (c_height c) @
     '',setsar=1,fps='' @ num_str (c_fps c) @
     transition_part c vid (num_or (duration vid) 5) @
     v_label i"

definition video_step :: "sys \<Rightarrow> settings \<Rightarrow> build_state \<Rightarrow> resource \<Rightarrow> build_state" where
  "video_step sy c s vid =
     s\<lparr> args := args s @ input_args sy vid,
        filterComplex := filterComplex s @ [video_filter c vid (inputIndex s)],
        videoInputs := videoInputs s @ [(inputIndex s, duration vid)],
        inputIndex := inputIndex s + 1 \<rparr>"

definition audioFilters :: "resource \<Rightarrow> string list" where
  "audioFilters aud =
     (let fd = str_or (fade aud) ''none'';
          fdur = num_or (fadeDuration aud) 1;
          vol = defined_or (volume aud) 100
      in (if vol \<noteq> 100 then [''volume='' @ num_str (vol / 100)] else []) @
         (if fd \<noteq> ''none'' \<and> fdur > 0
          then (if fd = ''fadein'' \<or> fd = ''both''
                then [''afade=t=in:st=0:d='' @ num_str fdur] else []) @
               (if fd = ''fadeout'' \<or> fd = ''both''
                then [''afade=t=out:st='' @ num_str (max 0 (num_or (duration aud) 10 - fdur)) @
                      '':d='' @ num_str fdur]
                else [])
          else []))"

definition audio_filter :: "resource \<Rightarrow> nat \<Rightarrow> string" where
  "audio_filter aud i = ''['' @ nat_str i @ '':a]'' @ join_with '','' (audioFilters aud) @ a_label i"

definition audio_step :: "sys \<Rightarrow> build_state \<Rightarrow> resource \<Rightarrow> build_state" where
  "audio_step sy s aud =
     (let i = inputIndex s;
          s1 = s\<lparr> args := args s @ input_args sy aud \<rparr>;
          s2 = (if audioFilters aud \<noteq> []
                then s1\<lparr> filterComplex := filterComplex s1 @ [audio_filter aud i],
                         audioInputs := audioInputs s1 @ [(i, Some i)] \<rparr>
                else s1\<lparr> audioInputs := audioInputs s1 @ [(i, None)] \<rparr>)
      in s2\<lparr> inputIndex := i + 1 \<rparr>)"

text \<open>
  With one visual input there is no concat: the loop walks \<open>filterComplex\<close> from its end
  to the first fragment that ends with the input's label, and replaces the first
  occurrence of the label in that fragment by \<open>[outv]\<close>.
\<close>

fun rename_backwards :: "string \<Rightarrow> string list \<Rightarrow> string list" where
  "rename_backwards lbl [] = []"
| "rename_backwards lbl (f # fs) =
     (if ends_with f lbl then replace_first lbl ''[outv]'' f # fs
      else f # rename_backwards lbl fs)"

definition rename_output :: "string \<Rightarrow> string list \<Rightarrow> string list" where
  "rename_output lbl fc = rev (rename_backwards lbl (rev fc))"

definition connect_video :: "build_state \<Rightarrow> build_state" where
  "connect_video s =
     (if videoInputs s = [] then s
      else if length (videoInputs s) = 1
      then s\<lparr> filterComplex := rename_output (v_label (fst (hd (videoInputs s)))) (filterComplex s) \<rparr>
      else s\<lparr> filterComplex := filterComplex s @
                 [concat (map (\<lambda>item. v_label (fst item)) (videoInputs s)) @
                  ''concat=n='' @ nat_str (length (videoInputs s)) @ '':v=1:a=0[outv]''] \<rparr>)"

definition audio_pad :: "nat \<times> nat option \<Rightarrow> string" where
  "audio_pad item =
     (case snd item of
        Some k \<Rightarrow> a_label k
      | None \<Rightarrow> ''['' @ nat_str (fst item) @ '':a]'')"

definition mix_audio :: "build_state \<Rightarrow> build_state" where
  "mix_audio s =
     (if audioInputs s = [] then s
      else s\<lparr> filterComplex := filterComplex s @
                 [concat (map audio_pad (audioInputs s)) @
                  ''amix=inputs='' @ nat_str (length (audioInputs s)) @
                  '':duration=longest:dropout_transition=2[outa]''] \<rparr>)"

definition audio_encoding :: "settings \<Rightarrow> string list" where
  "audio_encoding c =
     (if c_audioCodec c \<noteq> ''copy''
      then [''-acodec'', c_audioCodec c, ''-b:a'', c_audioBitrate c,
            ''-ar'', num_str (c_audioSampleRate c), ''-ac'', num_str (c_audioChannels c)]
      else [''-acodec'', ''copy''])"

definition output_args :: "settings \<Rightarrow> build_state \<Rightarrow> nat \<Rightarrow> nat \<Rightarrow> string \<Rightarrow> string list" where
  "output_args c s n_images n_videos normalizedOutputPath =
     (if filterComplex s \<noteq> [] then [''-filter_complex'', join_with '';'' (filterComplex s)] else []) @
     [''-vcodec'', c_videoCodec c] @
     (if c_videoCodec c = ''libx264'' \<or> c_videoCodec c = ''libx265''
      then [''-preset'', c_videoPreset c] @
           (if c_videoCrf c \<ge> 0 \<and> c_videoCrf c \<le> 51
            then [''-crf'', num_str (c_videoCrf c)]
            else [''-b:v'', c_videoBitrate c])
      else [''-b:v'', c_videoBitrate c]) @
     [''-pix_fmt'', ''yuv420p'', ''-shortest''] @
     (if videoInputs s \<noteq> [] then [''-map'', ''[outv]''] else []) @
     (if audioInputs s \<noteq> [] then audio_encoding c @ [''-map'', ''[outa]'']
      else if n_videos > 0 then [''-map'', nat_str n_images @ '':a?''] @ audio_encoding c
      else []) @
     [normalizedOutputPath]"

text \<open>What \<open>composeVideo\<close> has built when it hands over to the encoder.\<close>

record plan =
  plan_args :: "string list"
  plan_filterComplex :: "string list"
  plan_duration :: rat

definition build_plan ::
  "sys \<Rightarrow> world \<Rightarrow> resource list option \<Rightarrow> string \<Rightarrow> options \<Rightarrow> error + plan" where
  "build_plan sy w resources normalizedOutputPath opts =
     (let c = resolve_options opts in
      case resources of
        None \<Rightarrow> Inl EmptyResourceList
      | Some rs \<Rightarrow>
          if rs = [] then Inl EmptyResourceList
          else (case find (\<lambda>r. \<not> existsSync sy w (path r)) rs of
                  Some r \<Rightarrow> Inl (InputFileMissing (path r))
                | None \<Rightarrow>
                    (let images = filter (\<lambda>r. type r = ''image'') rs;
                         videos = filter (\<lambda>r. type r = ''video'') rs;
                         audios = filter (\<lambda>r. type r = ''audio'') rs
                     in if images = [] \<and> videos = [] then Inl NoVisualContent
                        else (case process_images sy w c images
                                     \<lparr> args = [''-y''], filterComplex = [], inputIndex = 0,
                                       videoInputs = [], audioInputs = [] \<rparr> of
                                Inl e \<Rightarrow> Inl e
                              | Inr s1 \<Rightarrow>
                                  (let s2 = foldl (video_step sy c) s1 videos;
                                       s3 = foldl (audio_step sy) s2 audios;
                                       s4 = mix_audio (connect_video s3)
                                   in Inr \<lparr> plan_args = args s4 @
                                              output_args c s4 (length images) (length videos)
                                                normalizedOutputPath,
                                            plan_filterComplex = filterComplex s4,
                                            plan_duration =
                                              sum_list (map (\<lambda>r. num_or (duration r) 3) images) +
                                              sum_list (map (\<lambda>r. num_or (duration r) 5) videos) \<rparr>)))))"

text \<open>
  Before it reads the resources \<open>composeVideo\<close> creates the output directory, probes it with
  a file it writes and removes, and removes an output file left from before. A failing
  \<open>mkdirSync\<close> is not caught; a failing removal of the old output is.
\<close>

definition prepare_output :: "sys \<Rightarrow> string \<Rightarrow> world \<Rightarrow> error + world" where
  "prepare_output sy outPath w =
     (let outputDir = path_dirname outPath;
          testFile = path_join outputDir ''.test_write'';
          normalizedOutputPath = path_resolve (cwd sy) outPath
      in if \<not> existsSync sy w outputDir \<and> \<not> mkdir_ok sy outputDir then Inl (MkdirFailed outputDir)
         else (let w1 = (if existsSync sy w outputDir then w
                         else w\<lparr> dirs := insert (path_resolve (cwd sy) outputDir) (dirs w) \<rparr>)
               in if \<not> write_ok sy testFile then Inl (OutputDirNotWritable outputDir)
                  else (let w2 = w1\<lparr> files := files w1 - {path_resolve (cwd sy) testFile} \<rparr>
                        in if existsSync sy w2 normalizedOutputPath
                           then (case unlinkSync sy normalizedOutputPath w2 of
                                   Some w3 \<Rightarrow> Inr w3
                                 | None \<Rightarrow> Inr w2)
                           else Inr w2)))"

text \<open>
  \<open>executeFFmpeg\<close> spawns the encoder with the arguments and resolves with the command
  text when it exits with code 0.
\<close>

definition executeFFmpeg :: "sys \<Rightarrow> string list \<Rightarrow> world \<Rightarrow> (exit + string) \<times> world" where
  "executeFFmpeg sy as w =
     (let (ex, fs') = encoder sy as (files w);
          w' = w\<lparr> files := fs', spawned := spawned w @ [as] \<rparr>
      in if ex = Exited 0
         then (Inr (''\"'' @ ffmpegPath sy @ ''\" '' @ join_with '' '' as), w')
         else (Inl ex, w'))"

record compose_result =
  command :: string
  outputPath :: string

definition composeVideo ::
  "sys \<Rightarrow> resource list option \<Rightarrow> string \<Rightarrow> options \<Rightarrow> world \<Rightarrow> (error + compose_result) \<times> world" where
  "composeVideo sy resources outPath opts w =
     (case prepare_output sy outPath w of
        Inl e \<Rightarrow> (Inl e, w)
      | Inr w1 \<Rightarrow>
          (let normalizedOutputPath = path_resolve (cwd sy) outPath
           in case build_plan sy w1 resources normalizedOutputPath opts of
                Inl e \<Rightarrow> (Inl e, w1)
              | Inr p \<Rightarrow>
                  (case executeFFmpeg sy (plan_args p) w1 of
                     (Inl ex, w2) \<Rightarrow> (Inl (ComposeFailed ex), w2)
                   | (Inr cmd, w2) \<Rightarrow>
                       (Inr \<lparr> command = cmd, outputPath = normalizedOutputPath \<rparr>, w2))))"

section \<open>The compose request\<close>

text \<open>
  A resource of the request body carries the attributes of a resource and names its file
  by \<open>url\<close> or by \<open>filename\<close>. An absent \<open>type\<close> is the empty text: the handler tests
  \<open>!resource.type\<close>, which holds for both.
\<close>

record request_resource = resource +
  url :: "string option"
  filename :: "string option"

record reply =
  status :: nat
  reply_command :: "string option"

definition uploadsDir :: "sys \<Rightarrow> string" where
  "uploadsDir sy = path_join (app_dir sy) ''uploads''"

definition outputDir :: "sys \<Rightarrow> string" where
  "outputDir sy = path_join (app_dir sy) ''output''"

definition to_resource :: "request_resource \<Rightarrow> string \<Rightarrow> resource" where
  "to_resource r filePath =
     \<lparr> type = type r,
       path = filePath,
       duration = duration r,
       startTime = startTime r,
       transition = Some (str_or (transition r) ''none''),
       transitionDuration = Some (num_or (transitionDuration r) (1/2)),
       position = Some (str_or (position r) ''center''),
       scaleMode = Some (str_or (scaleMode r) ''fit''),
       rotation = Some (num_or (rotation r) 0),
       opacity = Some (defined_or (opacity r) 100),
       fade = Some (str_or (fade r) ''none''),
       fadeDuration = Some (num_or (fadeDuration r) 1),
       volume = Some (defined_or (volume r) 100) \<rparr>"

text \<open>
  The loop over the request's resources. \<open>Inl\<close> is the status of an early \<open>return\<close>;
  a file downloaded before it stays on disk.
\<close>

record gathered =
  resourcePaths :: "resource list"
  tempFiles :: "string list"

fun gather ::
  "sys \<Rightarrow> nat \<Rightarrow> request_resource list \<Rightarrow> gathered \<Rightarrow> world \<Rightarrow> (nat + gathered) \<times> world" where
  "gather sy i [] g w = (Inr g, w)"
| "gather sy i (r # rs) g w =
     (if type r = [] then (Inl 400, w)
      else if type r \<notin> set [''image'', ''video'', ''audio''] then (Inl 400, w)
      else if str_or (url r) [] \<noteq> [] then
        (if \<not> url_ok sy (str_or (url r) []) then (Inl 400, w)
         else (case download sy (str_or (url r) []) i of
                 None \<Rightarrow> (Inl 500, w)
               | Some filePath \<Rightarrow>
                   gather sy (i + 1) rs
                     (g\<lparr> resourcePaths := resourcePaths g @ [to_resource r filePath],
                         tempFiles := tempFiles g @ [filePath] \<rparr>)
                     (w\<lparr> files := insert (path_resolve (cwd sy) filePath) (files w) \<rparr>)))
      else if str_or (filename r) [] \<noteq> [] then
        (let filePath = path_join (uploadsDir sy) (str_or (filename r) [])
         in if \<not> existsSync sy w filePath then (Inl 404, w)
            else gather sy (i + 1) rs
                   (g\<lparr> resourcePaths := resourcePaths g @ [to_resource r filePath] \<rparr>) w)
      else (Inl 400, w))"

definition compose_options :: "options \<Rightarrow> options" where
  "compose_options opts =
     \<lparr> width = Some (num_or (width opts) 1280),
       height = Some (num_or (height opts) 720),
       resolution =
         Some (if num_or (width opts) 0 \<noteq> 0 \<and> num_or (height opts) 0 \<noteq> 0
               then num_str (num_or (width opts) 0) @ ''x'' @ num_str (num_or (height opts) 0)
               else if str_or (resolution opts) [] \<noteq> [] then str_or (resolution opts) []
               else ''1280x720''),
       fps = Some (num_or (fps opts) 25),
       videoCodec = Some (str_or (videoCodec opts) ''libx264''),
       videoPreset = Some (str_or (videoPreset opts) ''medium''),
       videoCrf = Some (defined_or (videoCrf opts) 23),
       videoBitrate = Some (str_or (videoBitrate opts) ''2000k''),
       audioCodec = Some (str_or (audioCodec opts) ''aac''),
       audioBitrate = Some (str_or (audioBitrate opts) ''192k''),
       audioSampleRate = Some (num_or (audioSampleRate opts) 44100),
       audioChannels = Some (num_or (audioChannels opts) 2),
       backgroundColor = Some (str_or (backgroundColor opts) ''#000000'') \<rparr>"

text \<open>
  Removing the downloaded files: each removal sits in its own \<open>try\<close>, so a file that
  cannot be removed is skipped.
\<close>

definition cleanup :: "sys \<Rightarrow> string list \<Rightarrow> world \<Rightarrow> world" where
  "cleanup sy tfs w =
     foldl (\<lambda>w' t. if existsSync sy w' t
                    then (case unlinkSync sy t w' of Some w'' \<Rightarrow> w'' | None \<Rightarrow> w')
                    else w') w tfs"

text \<open>
  The names visible in the \<open>catch\<close> block of the handler: its parameter, the handler's
  parameters and the declarations at the top level of the module. What the \<open>try\<close> block
  declares with \<open>const\<close> (\<open>resources\<close>, \<open>options\<close>, \<open>resourcePaths\<close>, \<open>tempFiles\<close>, ...) is
  local to that block. The \<open>catch\<close> block guards its cleanup with
  \<open>typeof tempFiles !== 'undefined'\<close>, which is false for a name that is not declared.
\<close>

definition module_scope :: "string list" where
  "module_scope =
     [''express'', ''path'', ''fs'', ''https'', ''http'', ''URL'', ''cors'', ''bodyParser'',
      ''swaggerUi'', ''swaggerSpec'', ''ffmpeg'', ''sharp'', ''MAX_IMAGE_WIDTH'',
      ''MAX_IMAGE_HEIGHT'', ''app'', ''PORT'', ''uploadsDir'', ''outputDir'', ''templateDir'',
      ''downloadFromUrl'', ''formatFileSize'']"

definition catch_scope :: "string list" where
  "catch_scope = [''error'', ''req'', ''res''] @ module_scope"

definition compose_handler ::
  "sys \<Rightarrow> request_resource list option \<Rightarrow> options \<Rightarrow> world \<Rightarrow> reply \<times> world" where
  "compose_handler sy resources opts w =
     (case resources of
        None \<Rightarrow> (\<lparr> status = 400, reply_command = None \<rparr>, w)
      | Some rs \<Rightarrow>
          if rs = [] then (\<lparr> status = 400, reply_command = None \<rparr>, w)
          else (case gather sy 0 rs \<lparr> resourcePaths = [], tempFiles = [] \<rparr> w of
                  (Inl st, w1) \<Rightarrow> (\<lparr> status = st, reply_command = None \<rparr>, w1)
                | (Inr g, w1) \<Rightarrow>
                    (let outputFilename = ''composed_'' @ num_str (now sy) @ ''.mp4'';
                         outPath = path_join (outputDir sy) outputFilename
                     in case composeVideo sy (Some (resourcePaths g)) outPath (compose_options opts) w1 of
                          (Inr result, w2) \<Rightarrow>
                            (\<lparr> status = 200, reply_command = Some (command result) \<rparr>,
                             cleanup sy (tempFiles g) w2)
                        | (Inl e, w2) \<Rightarrow>
                            (\<lparr> status = 500, reply_command = None \<rparr>,
                             if ''tempFiles'' \<in> set catch_scope
                             then cleanup sy (tempFiles g) w2
                             else w2))))"

section \<open>Deleting a file\<close>

fun js_includes :: "string \<Rightarrow> string \<Rightarrow> bool" where
  "js_includes [] pat = (pat = [])"
| "js_includes (c # cs) pat = (prefix pat (c # cs) \<or> js_includes cs pat)"

definition delete_handler :: "sys \<Rightarrow> string option \<Rightarrow> string option \<Rightarrow> world \<Rightarrow> nat \<times> world" where
  "delete_handler sy directory fname w =
     (let dir = str_or directory [];
          fn = str_or fname []
      in if dir = [] \<or> dir \<notin> set [''uploads'', ''output''] then (400, w)
         else if fn = [] then (400, w)
         else if js_includes fn ''..'' \<or> js_includes fn ''/'' \<or> js_includes fn [CHR 0x5C] then (400, w)
         else (let dirPath = (if dir = ''uploads'' then uploadsDir sy else outputDir sy);
                   filePath = path_join dirPath fn
               in if \<not> prefix dirPath filePath then (400, w)
                  else if \<not> existsSync sy w filePath then (404, w)
                  else (case unlinkSync sy filePath w of
                          None \<Rightarrow> (500, w)
                        | Some w' \<Rightarrow> (200, w'))))"

section \<open>Reading a filter graph and an invocation\<close>

text \<open>
  A fragment of the graph is read the way the encoder reads it: the pad it defines is
  the label it ends with, and its operator is the name of its first filter, after the
  labels of its inputs.
\<close>

definition out_pad :: "string \<Rightarrow> string" where
  "out_pad f = CHR ''['' # rev (takeWhile (\<lambda>c. c \<noteq> CHR ''['') (rev f))"

fun strip_pads :: "bool \<Rightarrow> string \<Rightarrow> string" where
  "strip_pads inside [] = []"
| "strip_pads True (c # cs) = (if c = CHR '']'' then strip_pads False cs else strip_pads True cs)"
| "strip_pads False (c # cs) = (if c = CHR ''['' then strip_pads True cs else c # cs)"

definition op_name :: "string \<Rightarrow> string" where
  "op_name f = takeWhile (\<lambda>c. c \<noteq> CHR ''='') (strip_pads False f)"

text \<open>The invocation maps a pad when \<open>-map\<close> is directly followed by it.\<close>

fun maps_pad :: "string list \<Rightarrow> string \<Rightarrow> bool" where
  "maps_pad (a # b # as) lbl = ((a = ''-map'' \<and> b = lbl) \<or> maps_pad (b # as) lbl)"
| "maps_pad as lbl = False"

text \<open>The resources in the order in which they become encoder inputs.\<close>

definition images_of :: "resource list \<Rightarrow> resource list" where
  "images_of rs = filter (\<lambda>r. type r = ''image'') rs"

definition videos_of :: "resource list \<Rightarrow> resource list" where
  "videos_of rs = filter (\<lambda>r. type r = ''video'') rs"

definition audios_of :: "resource list \<Rightarrow> resource list" where
  "audios_of rs = filter (\<lambda>r. type r = ''audio'') rs"

definition visuals_of :: "resource list \<Rightarrow> resource list" where
  "visuals_of rs = images_of rs @ videos_of rs"

definition visual_fragment :: "settings \<Rightarrow> resource \<Rightarrow> nat \<Rightarrow> string" where
  "visual_fragment c r k = (if type r = ''image'' then image_filter c r k else video_filter c r k)"

text \<open>
  The fragments of the visual resources and of the filtered audio resources, numbered by
  encoder input, and the pads of the audio inputs.
\<close>

definition visual_fragments :: "settings \<Rightarrow> resource list \<Rightarrow> string list" where
  "visual_fragments c rs = map (\<lambda>(k, r). visual_fragment c r k) (enumerate 0 (visuals_of rs))"

definition audio_fragments :: "resource list \<Rightarrow> string list" where
  "audio_fragments rs =
     concat (map (\<lambda>(k, r). if audioFilters r \<noteq> [] then [audio_filter r k] else [])
                 (enumerate (length (visuals_of rs)) (audios_of rs)))"

definition audio_pads :: "resource list \<Rightarrow> string list" where
  "audio_pads rs =
     map (\<lambda>(k, r). if audioFilters r \<noteq> [] then a_label k else ''['' @ nat_str k @ '':a]'')
         (enumerate (length (visuals_of rs)) (audios_of rs))"

definition concat_fragment :: "nat \<Rightarrow> string" where
  "concat_fragment n =
     concat (map v_label [0..<n]) @ ''concat=n='' @ nat_str n @ '':v=1:a=0[outv]''"

definition amix_fragment :: "resource list \<Rightarrow> string" where
  "amix_fragment rs =
     concat (audio_pads rs) @ ''amix=inputs='' @ nat_str (length (audios_of rs)) @
     '':duration=longest:dropout_transition=2[outa]''"

text \<open>
  The graph and the input arguments in closed form; \<open>build_plan_Inr\<close> proves that they
  are what \<open>composeVideo\<close> builds.
\<close>

definition filter_graph :: "options \<Rightarrow> resource list \<Rightarrow> string list" where
  "filter_graph opts rs =
     (let c = resolve_options opts;
          n = length (visuals_of rs);
          frags = visual_fragments c rs @ audio_fragments rs
      in (if n = 1 then rename_output (v_label 0) frags else frags @ [concat_fragment n]) @
         (if audios_of rs = [] then [] else [amix_fragment rs]))"

definition input_part :: "sys \<Rightarrow> resource list \<Rightarrow> string list" where
  "input_part sy rs =
     concat (map (\<lambda>r. [''-i'', path_resolve (cwd sy) (path r)]) (images_of rs)) @
     concat (map (\<lambda>r. seek_args r @ [''-i'', path_resolve (cwd sy) (path r)])
                 (videos_of rs @ audios_of rs))"

definition encoding_part :: "settings \<Rightarrow> string list" where
  "encoding_part c =
     [''-vcodec'', c_videoCodec c] @
     (if c_videoCodec c = ''libx264'' \<or> c_videoCodec c = ''libx265''
      then [''-preset'', c_videoPreset c] @
           (if c_videoCrf c \<ge> 0 \<and> c_videoCrf c \<le> 51
            then [''-crf'', num_str (c_videoCrf c)]
            else [''-b:v'', c_videoBitrate c])
      else [''-b:v'', c_videoBitrate c]) @
     [''-pix_fmt'', ''yuv420p'', ''-shortest'']"

definition mapping_part :: "settings \<Rightarrow> resource list \<Rightarrow> string list" where
  "mapping_part c rs =
     [''-map'', ''[outv]''] @
     (if audios_of rs \<noteq> [] then audio_encoding c @ [''-map'', ''[outa]'']
      else if videos_of rs \<noteq> []
      then [''-map'', nat_str (length (images_of rs)) @ '':a?''] @ audio_encoding c
      else [])"

text \<open>A missing resource list has no resources.\<close>

definition resource_list :: "resource list option \<Rightarrow> resource list" where
  "resource_list resources = (case resources of None \<Rightarrow> [] | Some rs \<Rightarrow> rs)"

text \<open>An image whose duration is absent or 0, given the duration 3.\<close>

definition default_image_duration :: "resource \<Rightarrow> resource" where
  "default_image_duration r =
     (if type r = ''image'' \<and> (duration r = None \<or> duration r = Some 0)
      then r\<lparr> duration := Some 3 \<rparr> else r)"

section \<open>Worked inputs\<close>

definition blank :: resource where
  "blank = \<lparr> type = [], path = [], duration = None, startTime = None, transition = None,
             transitionDuration = None, position = None, scaleMode = None, rotation = None,
             opacity = None, fade = None, fadeDuration = None, volume = None \<rparr>"

definition no_options :: options where
  "no_options = \<lparr> width = None, height = None, resolution = None, fps = None,
                  videoCodec = None, videoPreset = None, videoCrf = None, videoBitrate = None,
                  audioCodec = None, audioBitrate = None, audioSampleRate = None,
                  audioChannels = None, backgroundColor = None \<rparr>"

text \<open>A platform on which every file operation succeeds and the encoder exits with the given code.\<close>

definition demo_sys :: "nat \<Rightarrow> sys" where
  "demo_sys code =
     \<lparr> cwd = ''/app'', app_dir = ''/app'', ffmpegPath = ''ffmpeg'',
       mkdir_ok = (\<lambda>p. True), write_ok = (\<lambda>p. True), unlink_ok = (\<lambda>p. True),
       encoder = (\<lambda>as fs. (Exited code, fs)),
       url_ok = (\<lambda>u. True),
       download = (\<lambda>u i. Some (''/app/uploads/downloaded_'' @ nat_str i @ ''.png'')),
       now = 1700000000000 \<rparr>"

definition from_url :: "resource \<Rightarrow> string \<Rightarrow> request_resource" where
  "from_url r u = resource.extend r (request_resource.fields (Some u) None)"

definition from_file :: "resource \<Rightarrow> string \<Rightarrow> request_resource" where
  "from_file r f = resource.extend r (request_resource.fields None (Some f))"

definition demo_world :: world where
  "demo_world =
     \<lparr> files = {''/app/uploads/a.png'', ''/app/uploads/b.png'', ''/app/uploads/c.mp3'',
                ''/app/uploads/d.mp4''},
       dirs = {''/app'', ''/app/uploads'', ''/app/output''},
       spawned = [] \<rparr>"

definition image_a :: resource where
  "image_a = blank\<lparr> type := ''image'', path := ''/app/uploads/a.png'' \<rparr>"

definition image_b :: resource where
  "image_b = blank\<lparr> type := ''image'', path := ''/app/uploads/b.png'' \<rparr>"

definition audio_c :: resource where
  "audio_c = blank\<lparr> type := ''audio'', path := ''/app/uploads/c.mp3'' \<rparr>"

definition video_d :: resource where
  "video_d = blank\<lparr> type := ''video'', path := ''/app/uploads/d.mp4'' \<rparr>"

text \<open>
  Two images of 3 seconds with a fade of 0.5 seconds and an audio at volume 50, composed
  at 1280x720 and 25 frames per second.
\<close>

definition slideshow :: "resource list" where
  "slideshow =
     [image_a\<lparr> duration := Some 3, transition := Some ''fade'', transitionDuration := Some (1/2) \<rparr>,
      image_b\<lparr> duration := Some 3, transition := Some ''fade'', transitionDuration := Some (1/2) \<rparr>,
      audio_c\<lparr> volume := Some 50 \<rparr>]"

definition slideshow_options :: options where
  "slideshow_options = no_options\<lparr> width := Some 1280, height := Some 720, fps := Some 25 \<rparr>"

section \<open>Rejected resource lists\<close>

lemma unlinkSync_spawned: "unlinkSync sy p w = Some w' \<Longrightarrow> spawned w' = spawned w"
  by (auto simp: unlinkSync_def split: if_splits)

lemma prepare_output_spawned: "prepare_output sy out w = Inr w1 \<Longrightarrow> spawned w1 = spawned w"
  by (auto simp: prepare_output_def Let_def split: if_splits option.splits
           dest: unlinkSync_spawned)

lemma process_images_error:
  "process_images sy w c imgs s = Inl e \<Longrightarrow> e \<noteq> ComposeFailed ex"
  by (induction imgs arbitrary: s) (auto simp: image_step_def Let_def split: if_splits)

lemma build_plan_error:
  "build_plan sy w resources out opts = Inl e \<Longrightarrow> e \<noteq> ComposeFailed ex"
  by (auto simp: build_plan_def Let_def split: option.splits if_splits sum.splits
           dest: process_images_error)

lemma build_plan_no_visual:
  assumes "visuals_of (resource_list resources) = []"
  shows "isl (build_plan sy w resources out opts)"
proof (cases resources)
  case None
  then show ?thesis by (simp add: build_plan_def)
next
  case (Some rs)
  with assms have "filter (\<lambda>r. type r = ''image'') rs = []" "filter (\<lambda>r. type r = ''video'') rs = []"
    by (simp_all add: visuals_of_def resource_list_def images_of_def videos_of_def)
  with Some show ?thesis
    by (simp add: build_plan_def Let_def split: option.splits)
qed

text \<open>
  C8. \<open>composeVideo\<close> fails when the resource list is missing or empty, and when it holds
  no image and no video: the result is an error, the error is not a failure of the
  encoder, and no encoder process has been spawned.
\<close>

theorem composeVideo_rejects_without_visual:
  assumes "visuals_of (resource_list resources) = []"
  shows "isl (fst (composeVideo sy resources out opts w)) \<and>
         (\<forall>ex. fst (composeVideo sy resources out opts w) \<noteq> Inl (ComposeFailed ex)) \<and>
         spawned (snd (composeVideo sy resources out opts w)) = spawned w"
proof (cases "prepare_output sy out w")
  case (Inl e)
  then have "e \<noteq> ComposeFailed ex" for ex
    by (auto simp: prepare_output_def Let_def split: if_splits option.splits)
  with Inl show ?thesis by (simp add: composeVideo_def)
next
  case (Inr w1)
  obtain e where e: "build_plan sy w1 resources (path_resolve (cwd sy) out) opts = Inl e"
    using build_plan_no_visual [OF assms, of sy w1 "path_resolve (cwd sy) out" opts]
    by (cases "build_plan sy w1 resources (path_resolve (cwd sy) out) opts") auto
  then have "e \<noteq> ComposeFailed ex" for ex
    by (rule build_plan_error)
  with Inr e prepare_output_spawned [OF Inr] show ?thesis
    by (simp add: composeVideo_def)
qed

theorem composeVideo_rejects_without_visual_witness:
  "visuals_of (resource_list (Some [audio_c])) = [] \<and>
   isl (fst (composeVideo (demo_sys 0) (Some [audio_c]) ''/app/output/o.mp4'' no_options demo_world)) \<and>
   spawned (snd (composeVideo (demo_sys 0) (Some [audio_c]) ''/app/output/o.mp4'' no_options demo_world)) = []"
proof -
  have h: "visuals_of (resource_list (Some [audio_c])) = []"
    by code_simp
  have s: "spawned demo_world = []"
    by (simp add: demo_world_def)
  from composeVideo_rejects_without_visual [OF h, of "demo_sys 0" "''/app/output/o.mp4''" no_options demo_world]
  show ?thesis using h s by simp
qed

section \<open>The slideshow example\<close>

text \<open>
  C3, as the code has it. For the two faded images and the audio at volume 50 the
  encoder is spawned once; the graph has the two visual fragments ending in \<open>[v0]\<close> and
  \<open>[v1]\<close>, the audio fragment \<open>[2:a]volume=0.5[a2]\<close>, the operator
  \<open>concat=n=2:v=1:a=0[outv]\<close> and an \<open>amix\<close> operator that mixes \<open>[a2]\<close> into \<open>[outa]\<close>;
  the invocation maps \<open>[outv]\<close> and \<open>[outa]\<close>.
\<close>

theorem slideshow_invocation:
  "spawned (snd (composeVideo (demo_sys 0) (Some slideshow) ''/app/output/o.mp4''
                   slideshow_options demo_world)) =
   [[''-y'', ''-i'', ''/app/uploads/a.png'', ''-i'', ''/app/uploads/b.png'',
     ''-i'', ''/app/uploads/c.mp3'', ''-filter_complex'',
     ''[0:v]loop=-1:size=1:start=0,scale=1280:720:force_original_aspect_ratio=decrease,pad=1280:720:(ow-iw)/2:(oh-ih)/2:color=0x000000,setsar=1,fps=25:round=up,trim=duration=3,fade=t=in:st=0:d=0.5,fade=t=out:st=2.5:d=0.5[v0];[1:v]loop=-1:size=1:start=0,scale=1280:720:force_original_aspect_ratio=decrease,pad=1280:720:(ow-iw)/2:(oh-ih)/2:color=0x000000,setsar=1,fps=25:round=up,trim=duration=3,fade=t=in:st=0:d=0.5,fade=t=out:st=2.5:d=0.5[v1];[2:a]volume=0.5[a2];[v0][v1]concat=n=2:v=1:a=0[outv];[a2]amix=inputs=1:duration=longest:dropout_transition=2[outa]'',
     ''-vcodec'', ''libx264'', ''-preset'', ''medium'', ''-crf'', ''23'',
     ''-pix_fmt'', ''yuv420p'', ''-shortest'', ''-map'', ''[outv]'',
     ''-acodec'', ''aac'', ''-b:a'', ''192k'', ''-ar'', ''44100'', ''-ac'', ''2'',
     ''-map'', ''[outa]'', ''/app/output/o.mp4'']]"
  by code_simp

text \<open>C3, as stated, fails: no \<open>-map\<close> of that invocation selects \<open>[a2]\<close>.\<close>

theorem slideshow_does_not_map_a2:
  "length (spawned (snd (composeVideo (demo_sys 0) (Some slideshow) ''/app/output/o.mp4''
                           slideshow_options demo_world))) = 1 \<and>
   \<not> maps_pad (hd (spawned (snd (composeVideo (demo_sys 0) (Some slideshow) ''/app/output/o.mp4''
                                     slideshow_options demo_world)))) ''[a2]''"
  by code_simp

section \<open>What the loops build\<close>

lemma process_images_Inr:
  "process_images sy w c imgs s = Inr s' \<Longrightarrow>
     args s' = args s @ concat (map (\<lambda>r. [''-i'', path_resolve (cwd sy) (path r)]) imgs) \<and>
     filterComplex s' = filterComplex s @ map (\<lambda>(k, r). image_filter c r k) (enumerate (inputIndex s) imgs) \<and>
     videoInputs s' = videoInputs s @ map (\<lambda>(k, r). (k, Some (num_or (duration r) 3))) (enumerate (inputIndex s) imgs) \<and>
     audioInputs s' = audioInputs s \<and>
     inputIndex s' = inputIndex s + length imgs"
proof (induction imgs arbitrary: s)
  case Nil
  then show ?case by simp
next
  case (Cons img imgs)
  then obtain s1 where s1: "image_step sy w c img s = Inr s1" and rest: "process_images sy w c imgs s1 = Inr s'"
    by (auto split: sum.splits)
  from s1 have "args s1 = args s @ [''-i'', path_resolve (cwd sy) (path img)]"
    "filterComplex s1 = filterComplex s @ [image_filter c img (inputIndex s)]"
    "videoInputs s1 = videoInputs s @ [(inputIndex s, Some (num_or (duration img) 3))]"
    "audioInputs s1 = audioInputs s" "inputIndex s1 = Suc (inputIndex s)"
    by (auto simp: image_step_def Let_def split: if_splits)
  with Cons.IH [OF rest] show ?case by simp
qed

lemma process_images_isl:
  "isl (process_images sy w c imgs s) \<longleftrightarrow>
   (\<exists>r\<in>set imgs. \<not> existsSync sy w (path_resolve (cwd sy) (path r)))"
  by (induction imgs arbitrary: s) (auto simp: image_step_def Let_def split: sum.splits)

lemma fold_video_step:
  "args (foldl (video_step sy c) s vids) = args s @ concat (map (input_args sy) vids) \<and>
   filterComplex (foldl (video_step sy c) s vids) =
     filterComplex s @ map (\<lambda>(k, r). video_filter c r k) (enumerate (inputIndex s) vids) \<and>
   videoInputs (foldl (video_step sy c) s vids) =
     videoInputs s @ map (\<lambda>(k, r). (k, duration r)) (enumerate (inputIndex s) vids) \<and>
   audioInputs (foldl (video_step sy c) s vids) = audioInputs s \<and>
   inputIndex (foldl (video_step sy c) s vids) = inputIndex s + length vids"
  by (induction vids arbitrary: s) (simp_all add: video_step_def)

lemma fold_audio_step:
  "args (foldl (audio_step sy) s auds) = args s @ concat (map (input_args sy) auds) \<and>
   filterComplex (foldl (audio_step sy) s auds) =
     filterComplex s @
     concat (map (\<lambda>(k, r). if audioFilters r \<noteq> [] then [audio_filter r k] else [])
                 (enumerate (inputIndex s) auds)) \<and>
   videoInputs (foldl (audio_step sy) s auds) = videoInputs s \<and>
   audioInputs (foldl (audio_step sy) s auds) =
     audioInputs s @ map (\<lambda>(k, r). (k, if audioFilters r \<noteq> [] then Some k else None))
                         (enumerate (inputIndex s) auds) \<and>
   inputIndex (foldl (audio_step sy) s auds) = inputIndex s + length auds"
  by (induction auds arbitrary: s) (simp_all add: audio_step_def Let_def)


lemma map_fst_tagged:
  "map (fst \<circ> (\<lambda>(k, r). (k, f r))) (enumerate m xs) = [m..<m + length xs]"
proof -
  have "map (fst \<circ> (\<lambda>(k, r). (k, f r))) (enumerate m xs) = map fst (enumerate m xs)"
    by (rule map_cong) auto
  then show ?thesis by simp
qed

lemma rename_backwards_length: "length (rename_backwards lbl fc) = length fc"
  by (induction fc) simp_all

lemma rename_output_length: "length (rename_output lbl fc) = length fc"
  by (simp add: rename_output_def rename_backwards_length)

lemma map_enumerate_cong:
  "(\<And>k r. r \<in> set xs \<Longrightarrow> f k r = g k r) \<Longrightarrow>
   map (\<lambda>(k, r). f k r) (enumerate m xs) = map (\<lambda>(k, r). g k r) (enumerate m xs)"
  by (induction xs arbitrary: m) simp_all

lemma build_plan_Inr:
  assumes "build_plan sy w (Some rs) out opts = Inr p"
  shows "visuals_of rs \<noteq> [] \<and>
         plan_filterComplex p = filter_graph opts rs \<and>
         plan_args p = [''-y''] @ input_part sy rs @
           [''-filter_complex'', join_with '';'' (filter_graph opts rs)] @
           encoding_part (resolve_options opts) @ mapping_part (resolve_options opts) rs @ [out]"
proof -
  define c where "c = resolve_options opts"
  define imgs where "imgs = images_of rs"
  define vids where "vids = videos_of rs"
  define auds where "auds = audios_of rs"
  define s0 where "s0 = \<lparr> args = [''-y''], filterComplex = [], inputIndex = 0,
                            videoInputs = [], audioInputs = [] \<rparr>"
  define n where "n = length imgs + length vids"
  from assms have vis: "\<not> (imgs = [] \<and> vids = [])"
    by (auto simp: build_plan_def Let_def imgs_def vids_def images_of_def videos_of_def
             split: option.splits if_splits)
  from assms obtain s1 where s1: "process_images sy w c imgs s0 = Inr s1"
    and p: "p = (let s4 = mix_audio (connect_video (foldl (audio_step sy) (foldl (video_step sy c) s1 vids) auds))
                 in \<lparr> plan_args = args s4 @ output_args c s4 (length imgs) (length vids) out,
                      plan_filterComplex = filterComplex s4,
                      plan_duration = sum_list (map (\<lambda>r. num_or (duration r) 3) imgs) +
                                      sum_list (map (\<lambda>r. num_or (duration r) 5) vids) \<rparr>)"
    by (auto simp: build_plan_def Let_def c_def imgs_def vids_def auds_def s0_def
                   images_of_def videos_of_def audios_of_def
             split: option.splits if_splits sum.splits)
  define s2 where "s2 = foldl (video_step sy c) s1 vids"
  define s3 where "s3 = foldl (audio_step sy) s2 auds"
  note i = process_images_Inr [OF s1]
  note v = fold_video_step [of sy c s1 vids, folded s2_def]
  note a = fold_audio_step [of sy s2 auds, folded s3_def]
  have idx1: "inputIndex s1 = length imgs" using i by (simp add: s0_def)
  have idx2: "inputIndex s2 = n" using v idx1 by (simp add: n_def)
  have args3: "args s3 = [''-y''] @ input_part sy rs"
    using i v a by (simp add: s0_def input_part_def input_args_def [abs_def] imgs_def vids_def auds_def)
  have vi3: "videoInputs s3 = map (\<lambda>(k, r). (k, Some (num_or (duration r) 3))) (enumerate 0 imgs) @
                              map (\<lambda>(k, r). (k, duration r)) (enumerate (length imgs) vids)"
    using i v a idx1 by (simp add: s0_def)
  have vi_fst: "map fst (videoInputs s3) = [0..<n]"
  proof -
    have "[0..<length imgs + length vids] = [0..<length imgs] @ [length imgs..<length imgs + length vids]"
      by (rule upt_add_eq_append) simp
    then show ?thesis unfolding vi3 n_def by (simp add: map_fst_tagged)
  qed
  have vi_len: "length (videoInputs s3) = n"
    using arg_cong [OF vi_fst, of length] by simp
  have ai3: "audioInputs s3 = map (\<lambda>(k, r). (k, if audioFilters r \<noteq> [] then Some k else None))
                                 (enumerate n auds)"
    using i v a idx2 by (simp add: s0_def)
  have vfrag: "map (\<lambda>(k, r). image_filter c r k) (enumerate 0 imgs) @
               map (\<lambda>(k, r). video_filter c r k) (enumerate (length imgs) vids) =
               visual_fragments c rs"
  proof -
    have "map (\<lambda>(k, r). image_filter c r k) (enumerate 0 imgs) =
          map (\<lambda>(k, r). visual_fragment c r k) (enumerate 0 imgs)"
      by (rule map_enumerate_cong) (simp add: imgs_def images_of_def visual_fragment_def)
    moreover have "map (\<lambda>(k, r). video_filter c r k) (enumerate (length imgs) vids) =
          map (\<lambda>(k, r). visual_fragment c r k) (enumerate (length imgs) vids)"
      by (rule map_enumerate_cong) (simp add: vids_def videos_of_def visual_fragment_def)
    ultimately show ?thesis
      by (simp add: visual_fragments_def visuals_of_def enumerate_append_eq imgs_def vids_def)
  qed
  have fc3: "filterComplex s3 = visual_fragments c rs @ audio_fragments rs"
    using i v a idx1 idx2 vfrag
    by (simp add: s0_def audio_fragments_def visuals_of_def n_def imgs_def vids_def auds_def)
  have n_vis: "n = length (visuals_of rs)"
    by (simp add: n_def visuals_of_def imgs_def vids_def)
  have n_pos: "n > 0" using vis by (auto simp: n_def)
  have hd0: "n = 1 \<Longrightarrow> fst (hd (videoInputs s3)) = 0"
    using vi_fst by (cases "videoInputs s3") (auto simp: upt_conv_Cons)
  have labels: "map (\<lambda>item. v_label (fst item)) (videoInputs s3) = map v_label [0..<n]"
    using arg_cong [OF vi_fst, of "map v_label"] by (simp add: comp_def)
  have pads: "map audio_pad (audioInputs s3) = audio_pads rs"
    by (auto simp: ai3 audio_pads_def audio_pad_def n_vis auds_def)
  have ai_len: "length (audioInputs s3) = length (audios_of rs)"
    by (simp add: ai3 auds_def)
  have cv: "filterComplex (connect_video s3) =
            (if n = 1 then rename_output (v_label 0) (visual_fragments c rs @ audio_fragments rs)
             else visual_fragments c rs @ audio_fragments rs @ [concat_fragment n])"
    using n_pos vi_len hd0 labels fc3
    by (auto simp: connect_video_def concat_fragment_def)
  have cv_other: "args (connect_video s3) = args s3" "audioInputs (connect_video s3) = audioInputs s3"
                 "videoInputs (connect_video s3) = videoInputs s3"
    by (simp_all add: connect_video_def)
  define s4 where "s4 = mix_audio (connect_video s3)"
  have fc4: "filterComplex s4 = filter_graph opts rs"
    using cv cv_other pads ai_len
    by (auto simp: s4_def mix_audio_def filter_graph_def Let_def c_def [symmetric] n_vis [symmetric]
                   amix_fragment_def)
  have s4_other: "args s4 = args s3" "audioInputs s4 = audioInputs s3" "videoInputs s4 = videoInputs s3"
    using cv_other by (simp_all add: s4_def mix_audio_def)
  have vf_len: "length (visual_fragments c rs) = n"
    by (simp add: visual_fragments_def n_vis)
  have fg_ne: "filter_graph opts rs \<noteq> []"
    using n_pos vf_len
    using rename_output_length [of "v_label 0" "visual_fragments c rs @ audio_fragments rs"]
    by (auto simp: filter_graph_def Let_def c_def [symmetric] n_vis [symmetric])
  have vi_ne: "videoInputs s4 \<noteq> []"
    using vi_len n_pos s4_other by auto
  have ai_ne: "audioInputs s4 \<noteq> [] \<longleftrightarrow> audios_of rs \<noteq> []"
    using ai_len s4_other by auto
  have out: "output_args c s4 (length imgs) (length vids) out =
             [''-filter_complex'', join_with '';'' (filter_graph opts rs)] @
             encoding_part c @ mapping_part c rs @ [out]"
    using vi_ne ai_ne fg_ne fc4
    by (simp add: output_args_def encoding_part_def mapping_part_def imgs_def vids_def)
  have "plan_filterComplex p = filter_graph opts rs"
    using p fc4 by (simp add: Let_def s4_def s3_def s2_def)
  moreover have "plan_args p = args s4 @ output_args c s4 (length imgs) (length vids) out"
    using p by (simp add: Let_def s4_def s3_def s2_def)
  moreover have "visuals_of rs \<noteq> []"
    using n_pos n_vis by auto
  ultimately show ?thesis
    using out args3 s4_other by (simp add: c_def)
qed

lemma build_plan_isl:
  "isl (build_plan sy w (Some rs) out opts) \<longleftrightarrow>
     rs = [] \<or> (\<exists>r\<in>set rs. \<not> existsSync sy w (path r)) \<or> visuals_of rs = [] \<or>
     (\<exists>r\<in>set (images_of rs). \<not> existsSync sy w (path_resolve (cwd sy) (path r)))"
proof -
  have f: "find (\<lambda>r. \<not> existsSync sy w (path r)) rs = None \<longleftrightarrow>
           \<not> (\<exists>r\<in>set rs. \<not> existsSync sy w (path r))"
    by (auto simp: find_None_iff)
  show ?thesis
  proof (cases "find (\<lambda>r. \<not> existsSync sy w (path r)) rs")
    case None
    with f have all: "\<not> (\<exists>r\<in>set rs. \<not> existsSync sy w (path r))" by simp
    have l: "process_images sy w c imgs s0 = Inl e \<Longrightarrow>
             \<exists>r\<in>set imgs. \<not> existsSync sy w (path_resolve (cwd sy) (path r))" for c imgs s0 e
      using process_images_isl [of sy w c imgs s0] by simp
    have r: "process_images sy w c imgs s0 = Inr s1 \<Longrightarrow>
             \<forall>r\<in>set imgs. existsSync sy w (path_resolve (cwd sy) (path r))" for c imgs s0 s1
      using process_images_isl [of sy w c imgs s0] by simp
    from None all show ?thesis
      by (auto simp: build_plan_def Let_def visuals_of_def images_of_def videos_of_def
               split: sum.splits dest!: l r)
  next
    case (Some r)
    with f have "\<exists>r\<in>set rs. \<not> existsSync sy w (path r)" by simp
    with Some show ?thesis
      by (auto simp: build_plan_def Let_def)
  qed
qed

section \<open>The order of the arguments\<close>

text \<open>
  C7. The argument list starts with \<open>-y\<close> and ends with the output path. Between them
  come the inputs, one block per resource and nothing else: \<open>-i\<close> and the path for each
  image, and for each video and then each audio \<open>-ss\<close> with the start time when it is
  positive, \<open>-t\<close> with the duration when it is positive, and directly after them \<open>-i\<close>
  with the path of that same resource. The graph follows the last input.
\<close>

theorem seek_flags_precede_their_input:
  assumes "build_plan sy w (Some rs) out opts = Inr p"
  shows "hd (plan_args p) = ''-y'' \<and> last (plan_args p) = out \<and>
         (\<exists>rest. plan_args p =
            [''-y''] @
            concat (map (\<lambda>r. [''-i'', path_resolve (cwd sy) (path r)]) (images_of rs)) @
            concat (map (\<lambda>r.
                      (if is_positive (startTime r) then [''-ss'', num_str (the (startTime r))] else []) @
                      (if is_positive (duration r) then [''-t'', num_str (the (duration r))] else []) @
                      [''-i'', path_resolve (cwd sy) (path r)])
                    (videos_of rs @ audios_of rs)) @
            [''-filter_complex''] @ rest)"
proof -
  from build_plan_Inr [OF assms]
  have a: "plan_args p = [''-y''] @ input_part sy rs @
           [''-filter_complex'', join_with '';'' (filter_graph opts rs)] @
           encoding_part (resolve_options opts) @ mapping_part (resolve_options opts) rs @ [out]"
    by simp
  have "input_part sy rs =
        concat (map (\<lambda>r. [''-i'', path_resolve (cwd sy) (path r)]) (images_of rs)) @
        concat (map (\<lambda>r.
                  (if is_positive (startTime r) then [''-ss'', num_str (the (startTime r))] else []) @
                  (if is_positive (duration r) then [''-t'', num_str (the (duration r))] else []) @
                  [''-i'', path_resolve (cwd sy) (path r)])
                (videos_of rs @ audios_of rs))"
    by (simp add: input_part_def seek_args_def)
  with a show ?thesis by simp
qed

theorem seek_flags_precede_their_input_witness:
  "\<not> isl (build_plan (demo_sys 0) demo_world
     (Some [audio_c\<lparr> startTime := Some 2 \<rparr>,
            video_d\<lparr> startTime := Some 1, duration := Some (7/2) \<rparr>, image_a])
     ''/app/output/o.mp4'' no_options) \<and>
   take 12 (plan_args (projr (build_plan (demo_sys 0) demo_world
     (Some [audio_c\<lparr> startTime := Some 2 \<rparr>,
            video_d\<lparr> startTime := Some 1, duration := Some (7/2) \<rparr>, image_a])
     ''/app/output/o.mp4'' no_options))) =
   [''-y'', ''-i'', ''/app/uploads/a.png'',
    ''-ss'', ''1'', ''-t'', ''3.5'', ''-i'', ''/app/uploads/d.mp4'',
    ''-ss'', ''2'', ''-i''] \<and>
   last (plan_args (projr (build_plan (demo_sys 0) demo_world
     (Some [audio_c\<lparr> startTime := Some 2 \<rparr>,
            video_d\<lparr> startTime := Some 1, duration := Some (7/2) \<rparr>, image_a])
     ''/app/output/o.mp4'' no_options))) = ''/app/output/o.mp4''"
proof -
  let ?rs = "[audio_c\<lparr> startTime := Some 2 \<rparr>,
              video_d\<lparr> startTime := Some 1, duration := Some (7/2) \<rparr>, image_a]"
  let ?b = "build_plan (demo_sys 0) demo_world (Some ?rs) ''/app/output/o.mp4'' no_options"
  have h: "?b = Inr (projr ?b)"
    by code_simp
  have t: "take 12 (plan_args (projr ?b)) =
     [''-y'', ''-i'', ''/app/uploads/a.png'',
      ''-ss'', ''1'', ''-t'', ''3.5'', ''-i'', ''/app/uploads/d.mp4'',
      ''-ss'', ''2'', ''-i'']"
    by code_simp
  from seek_flags_precede_their_input [OF h]
  have l: "last (plan_args (projr ?b)) = ''/app/output/o.mp4''"
    by simp
  from h have "\<not> isl ?b"
    by (metis sum.disc(2))
  with t l show ?thesis by simp
qed

section \<open>Determinism of the graph\<close>

text \<open>
  C6. The graph depends on the resources and the options only: two runs of
  \<open>composeVideo\<close> on the same resource list and the same options, on any two platforms,
  disks and output paths, that both reach the encoder, build the same fragments and
  hence the same \<open>-filter_complex\<close> text.
\<close>

theorem filter_graph_deterministic:
  assumes "build_plan sy1 w1 (Some rs) out1 opts = Inr p1"
    and "build_plan sy2 w2 (Some rs) out2 opts = Inr p2"
  shows "plan_filterComplex p1 = plan_filterComplex p2 \<and>
         join_with '';'' (plan_filterComplex p1) = join_with '';'' (plan_filterComplex p2)"
  using build_plan_Inr [OF assms(1)] build_plan_Inr [OF assms(2)] by simp

theorem filter_graph_deterministic_witness:
  "\<not> isl (build_plan (demo_sys 0) demo_world (Some slideshow) ''/app/output/o.mp4'' slideshow_options) \<and>
   \<not> isl (build_plan (demo_sys 1) (demo_world\<lparr> spawned := [[''-version'']] \<rparr>) (Some slideshow)
              ''/tmp/p.mp4'' slideshow_options) \<and>
   join_with '';'' (plan_filterComplex (projr
     (build_plan (demo_sys 0) demo_world (Some slideshow) ''/app/output/o.mp4'' slideshow_options))) =
   join_with '';'' (plan_filterComplex (projr
     (build_plan (demo_sys 1) (demo_world\<lparr> spawned := [[''-version'']] \<rparr>) (Some slideshow)
        ''/tmp/p.mp4'' slideshow_options)))"
proof -
  let ?a = "build_plan (demo_sys 0) demo_world (Some slideshow) ''/app/output/o.mp4'' slideshow_options"
  let ?b = "build_plan (demo_sys 1) (demo_world\<lparr> spawned := [[''-version'']] \<rparr>) (Some slideshow)
              ''/tmp/p.mp4'' slideshow_options"
  have a: "?a = Inr (projr ?a)"
    by code_simp
  have b: "?b = Inr (projr ?b)"
    by code_simp
  have "\<not> isl ?a" "\<not> isl ?b"
    using a b by (metis sum.disc(2))+
  with filter_graph_deterministic [OF a b] show ?thesis by simp
qed


section \<open>The duration of an image\<close>

lemma default_image_duration_simps:
  "type (default_image_duration r) = type r"
  "path (default_image_duration r) = path r"
  "type r \<noteq> ''image'' \<Longrightarrow> default_image_duration r = r"
  "num_or (duration (default_image_duration r)) 3 = num_or (duration r) 3"
  by (auto simp: default_image_duration_def num_or_def)

lemma buildScaleAndPositionFilter_duration:
  "buildScaleAndPositionFilter bg l (r\<lparr> duration := x \<rparr>) tw th = buildScaleAndPositionFilter bg l r tw th"
  by (simp add: buildScaleAndPositionFilter_def)

lemma transition_part_duration:
  "transition_part c (r\<lparr> duration := x \<rparr>) t = transition_part c r t"
  by (simp add: transition_part_def)

lemma image_filter_duration:
  "num_or x 3 = num_or (duration r) 3 \<Longrightarrow> image_filter c (r\<lparr> duration := x \<rparr>) i = image_filter c r i"
  by (simp add: image_filter_def Let_def buildScaleAndPositionFilter_duration transition_part_duration)

lemma image_step_default:
  "image_step sy w c (default_image_duration r) s = image_step sy w c r s"
proof (cases "type r = ''image'' \<and> (duration r = None \<or> duration r = Some 0)")
  case True
  then have n: "num_or (Some 3) 3 = num_or (duration r) 3"
    by (auto simp: num_or_def)
  from True have d: "default_image_duration r = r\<lparr> duration := Some 3 \<rparr>"
    by (simp add: default_image_duration_def)
  have f: "image_filter c (r\<lparr> duration := Some 3 \<rparr>) i = image_filter c r i" for i
    by (rule image_filter_duration [OF n])
  have m: "num_or (duration (r\<lparr> duration := Some 3 \<rparr>)) 3 = num_or (duration r) 3"
    using n by simp
  show ?thesis
    unfolding d image_step_def f m by simp
next
  case False
  then have "default_image_duration r = r"
    by (auto simp: default_image_duration_def)
  then show ?thesis by simp
qed

lemma process_images_default:
  "process_images sy w c (map default_image_duration imgs) s = process_images sy w c imgs s"
  by (induction imgs arbitrary: s) (simp_all add: image_step_default split: sum.splits)

lemma find_map_path:
  assumes "\<And>r. path (f r) = path r"
  shows "(case find (\<lambda>r. P (path r)) (map f rs) of None \<Rightarrow> a | Some r \<Rightarrow> b (path r)) =
         (case find (\<lambda>r. P (path r)) rs of None \<Rightarrow> a | Some r \<Rightarrow> b (path r))"
  by (induction rs) (simp_all add: assms)

lemma build_plan_map:
  assumes t: "\<And>r. type (f r) = type r"
    and p: "\<And>r. path (f r) = path r"
  shows "isl (build_plan sy w (Some (map f rs)) out opts) = isl (build_plan sy w (Some rs) out opts)"
proof -
  have fi: "filter (\<lambda>r. type r = ty) (map f rs) = map f (filter (\<lambda>r. type r = ty) rs)" for ty
    by (induction rs) (simp_all add: t)
  have e1: "(\<exists>r\<in>set (map f rs). \<not> existsSync sy w (path r)) = (\<exists>r\<in>set rs. \<not> existsSync sy w (path r))"
    by (simp add: p)
  have e2: "(\<exists>r\<in>set (map f xs). \<not> existsSync sy w (path_resolve (cwd sy) (path r))) =
            (\<exists>r\<in>set xs. \<not> existsSync sy w (path_resolve (cwd sy) (path r)))" for xs
    by (simp add: p)
  show ?thesis
    unfolding build_plan_isl visuals_of_def images_of_def videos_of_def fi e1 e2
    by simp
qed

text \<open>
  C5, as the code has it. \<open>composeVideo\<close> does not reject an image for its duration: an
  absent or zero duration is replaced by 3 seconds, so that composing the list is
  composing the list with those durations set to 3; and whatever durations the images
  of a list are given, absent, zero or negative, the list is rejected before the
  encoder if and only if the original list is.
\<close>

theorem image_duration_is_defaulted:
  "build_plan sy w (Some (map default_image_duration rs)) out opts =
     build_plan sy w (Some rs) out opts \<and>
   isl (build_plan sy w (Some (map (\<lambda>r. if type r = ''image'' then r\<lparr> duration := d r \<rparr> else r) rs)) out opts) =
     isl (build_plan sy w (Some rs) out opts)"
proof
  have fi: "filter (\<lambda>r. type r = ''image'') (map default_image_duration rs) =
            map default_image_duration (filter (\<lambda>r. type r = ''image'') rs)"
    by (simp add: filter_map comp_def default_image_duration_simps)
  have fv: "filter (\<lambda>r. type r = ''video'') (map default_image_duration rs) = filter (\<lambda>r. type r = ''video'') rs"
    by (induction rs) (auto simp: default_image_duration_simps)
  have fa: "filter (\<lambda>r. type r = ''audio'') (map default_image_duration rs) = filter (\<lambda>r. type r = ''audio'') rs"
    by (induction rs) (auto simp: default_image_duration_simps)
  have su: "map (\<lambda>r. num_or (duration r) 3) (map default_image_duration xs) =
            map (\<lambda>r. num_or (duration r) 3) xs" for xs
    by (simp add: default_image_duration_simps)
  have fm: "(case find (\<lambda>r. \<not> existsSync sy w (path r)) (map default_image_duration rs) of
               None \<Rightarrow> a | Some r \<Rightarrow> Inl (InputFileMissing (path r))) =
            (case find (\<lambda>r. \<not> existsSync sy w (path r)) rs of
               None \<Rightarrow> a | Some r \<Rightarrow> Inl (InputFileMissing (path r)))" for a :: "error + plan"
    by (rule find_map_path) (simp add: default_image_duration_simps)
  have ne: "(map default_image_duration rs = []) = (rs = [])"
    by simp
  show "build_plan sy w (Some (map default_image_duration rs)) out opts =
        build_plan sy w (Some rs) out opts"
    unfolding build_plan_def Let_def option.case fi fv fa su ne length_map map_is_Nil_conv process_images_default fm
    by (rule refl)
next
  show "isl (build_plan sy w (Some (map (\<lambda>r. if type r = ''image'' then r\<lparr> duration := d r \<rparr> else r) rs)) out opts) =
        isl (build_plan sy w (Some rs) out opts)"
    by (rule build_plan_map) simp_all
qed

text \<open>
  C5, as stated, fails: an image without a duration is composed, by \<open>composeVideo\<close> and
  by the request handler, and the encoder is spawned.
\<close>

theorem image_without_duration_is_composed:
  "duration image_a = None \<and> type image_a = ''image'' \<and>
   \<not> isl (fst (composeVideo (demo_sys 0) (Some [image_a]) ''/app/output/o.mp4'' no_options demo_world)) \<and>
   length (spawned (snd (composeVideo (demo_sys 0) (Some [image_a]) ''/app/output/o.mp4'' no_options demo_world))) = 1 \<and>
   status (fst (compose_handler (demo_sys 0) (Some [from_file image_a ''a.png'']) no_options demo_world)) = 200 \<and>
   length (spawned (snd (compose_handler (demo_sys 0) (Some [from_file image_a ''a.png'']) no_options demo_world))) = 1"
  by code_simp

end
